theory Spec2Isabelle
  imports Complex_Main "HOL-Library.Word" "HOL-Library.Sublist" "HOL-Library.Log_Nat"
begin

section \<open>Strings and numbers of the host language\<close>

text \<open>
  The chat service is TypeScript. A string value is a finite sequence of 16-bit code units;
  a number is a binary64 floating-point number.
\<close>

type_synonym code_unit = "16 word"
type_synonym jsstring = "code_unit list"

definition str :: "string \<Rightarrow> jsstring" where
  "str cs = map (\<lambda>c. of_nat (of_char c)) cs"

subsection \<open>Numbers\<close>

text \<open>
  A number of the language is modelled by the real number it denotes. \<open>binary64 x\<close> is
  the double nearest to the real \<open>x\<close>, a tie going to the double with the even
  significand: it is what the language holds for the decimal literal \<open>x\<close>, and the result
  of an arithmetic operation whose exact result is \<open>x\<close>. A double is a whole multiple of
  its \<open>quantum\<close>, the power of two that leaves 53 bits to the significand and is never
  below \<open>tiny\<close>, the least positive double. Exact results beyond the greatest double,
  which the language turns into \<open>Infinity\<close>, are outside the model: the numbers of the
  engine stay far below.

  In the fixed payloads a decimal literal is written as the decimal itself: these numbers
  are only stored, compared and counted, and reading the literals at hand as doubles keeps
  them apart and in their order. The time-series generators compute with numbers; there
  every literal and every operation is rounded.
\<close>

definition roundHalfEven :: "real \<Rightarrow> int" where
  "roundHalfEven y =
     (let f = \<lfloor>y\<rfloor>; d = y - of_int f
      in if d < 1 / 2 then f else if 1 / 2 < d then f + 1 else if even f then f else f + 1)"

definition tiny :: real where
  "tiny = 1 / 2 ^ 1074"

definition shift :: "real \<Rightarrow> nat" where
  "shift x = nat (bitlen \<lfloor>\<bar>x\<bar> / tiny\<rfloor> - 53)"

definition quantum :: "real \<Rightarrow> real" where
  "quantum x = 2 ^ shift x * tiny"

definition binary64 :: "real \<Rightarrow> real" where
  "binary64 x = of_int (roundHalfEven (x / quantum x)) * quantum x"

definition plus64 :: "real \<Rightarrow> real \<Rightarrow> real" where
  "plus64 a b = binary64 (a + b)"

definition minus64 :: "real \<Rightarrow> real \<Rightarrow> real" where
  "minus64 a b = binary64 (a - b)"

definition times64 :: "real \<Rightarrow> real \<Rightarrow> real" where
  "times64 a b = binary64 (a * b)"

text \<open>
  \<open>String.prototype.includes\<close>: the needle occurs at some position of the text, compared
  code unit by code unit. \<open>startsWith\<close> is the match at the current position.
\<close>

fun startsWith :: "jsstring \<Rightarrow> jsstring \<Rightarrow> bool" where
  "startsWith s [] = True"
| "startsWith [] (c # cs) = False"
| "startsWith (d # ds) (c # cs) = (d = c \<and> startsWith ds cs)"

fun includes_js :: "jsstring \<Rightarrow> jsstring \<Rightarrow> bool" where
  "includes_js [] needle = startsWith [] needle"
| "includes_js (d # ds) needle = (startsWith (d # ds) needle \<or> includes_js ds needle)"

text \<open>
  \<open>String.prototype.toLowerCase\<close> follows the Unicode case tables, which are not part of
  the repository. The engine searches the lower-cased text for keywords made of the letters
  a to z only, so what matters of the tables is which code units they send into that range:
  the capitals A to Z, the Kelvin sign U+212A (to k) and the dotted capital I U+0130 (to i
  followed by the combining dot U+0307). Those entries are written out; every other code
  unit is kept, as the tables keep it or send it to a code unit outside a to z.
\<close>

definition lowerUnit :: "code_unit \<Rightarrow> jsstring" where
  "lowerUnit c =
     (if 0x41 \<le> c \<and> c \<le> 0x5A then [c + 0x20]
      else if c = 0x130 then [0x69, 0x307]
      else if c = 0x212A then [0x6B]
      else [c])"

definition toLowerCase :: "jsstring \<Rightarrow> jsstring" where
  "toLowerCase s = concat (map lowerUnit s)"

text \<open>
  \<open>String.prototype.toUpperCase\<close> is used below at one concrete string only. The entries
  of the tables written out are those that lead into the capitals A to Z from a single code
  unit of the Latin blocks: a to z, the dotless i U+0131 (to I), the long s U+017F (to S)
  and the sharp s U+00DF (to SS). The other entries of the tables are not modelled.
\<close>

definition upperUnit :: "code_unit \<Rightarrow> jsstring" where
  "upperUnit c =
     (if 0x61 \<le> c \<and> c \<le> 0x7A then [c - 0x20]
      else if c = 0x131 then [0x49]
      else if c = 0x17F then [0x53]
      else if c = 0xDF then [0x53, 0x53]
      else [c])"

definition toUpperCase :: "jsstring \<Rightarrow> jsstring" where
  "toUpperCase s = concat (map upperUnit s)"

section \<open>The intent of a message\<close>

text \<open>
  \<open>generateMockResponse\<close> (chat service, lines 40 to 226) lower-cases the message and walks
  a chain of \<open>if\<close> / \<open>else if\<close> tests on the lower-cased text. \<open>resolve\<close> is that chain of
  tests, in the order of the source, naming the branch that is taken.
\<close>

datatype Intent =
    TemperatureAnomaly
  | TemperatureDepthProfile
  | TemperatureTrend
  | TemperatureGeneric
  | Salinity
  | CurrentVelocity
  | RegionAtlantic
  | RegionPacific
  | Default

definition resolve :: "jsstring \<Rightarrow> Intent" where
  "resolve lowerMessage =
     (if includes_js lowerMessage (str ''temperature'') then
        (if includes_js lowerMessage (str ''anomaly'') \<or> includes_js lowerMessage (str ''unusual'')
           then TemperatureAnomaly
         else if includes_js lowerMessage (str ''depth'') \<or> includes_js lowerMessage (str ''profile'')
           then TemperatureDepthProfile
         else if includes_js lowerMessage (str ''trend'') then TemperatureTrend
         else TemperatureGeneric)
      else if includes_js lowerMessage (str ''salinity'') then Salinity
      else if includes_js lowerMessage (str ''current'') \<or> includes_js lowerMessage (str ''velocity'')
        then CurrentVelocity
      else if includes_js lowerMessage (str ''atlantic'') then RegionAtlantic
      else if includes_js lowerMessage (str ''pacific'') then RegionPacific
      else Default)"

section \<open>Data payloads\<close>

text \<open>
  One record per shape of the \<open>data\<close> field, with the field names of the source (prefixed
  where two shapes share a name), and one constructor of \<open>DomainData\<close> per generator.
\<close>

record anomaly_entry =
  an_date :: jsstring
  an_value :: real
  an_anomaly :: real
  an_lat :: real
  an_lon :: real

record anomaly_statistics =
  total_anomalies :: real
  max_positive :: real
  max_negative :: real
  confidence :: real

record anomaly_data =
  an_region :: jsstring
  an_parameter :: jsstring
  anomalies :: "anomaly_entry list"
  an_statistics :: anomaly_statistics

record profile_location =
  loc_lat :: real
  loc_lon :: real
  loc_region :: jsstring

record depth_profile_data =
  dp_depths :: "real list"
  dp_temperatures :: "real list"
  dp_location :: profile_location

record trend_data =
  years :: "real list"
  tr_temperatures :: "real list"
  trend_slope :: real
  r_squared :: real

record series_statistics =
  ts_mean :: real
  ts_std :: real
  ts_min :: real
  ts_max :: real
  valid_measurements :: real
  active_floats :: real

record time_series_data =
  ts_dates :: "jsstring list"
  ts_temperatures :: "real list"
  ts_statistics :: series_statistics

record salinity_statistics =
  sal_mean :: real
  sal_std :: real
  halocline_depth :: real

record salinity_data =
  sal_depths :: "real list"
  salinity :: "real list"
  sal_statistics :: salinity_statistics

record current_statistics =
  mean_velocity :: real
  predominant_direction :: real

record current_data =
  velocities :: "real list"
  directions :: "real list"
  cur_statistics :: current_statistics

record atlantic_data =
  atl_region :: jsstring
  temperature_range :: "real list"
  salinity_range :: "real list"
  atl_characteristics :: "jsstring list"

record pacific_depth_stats =
  depth_mean :: real
  depth_max :: real

record pacific_data =
  pac_region :: jsstring
  area :: jsstring
  pac_characteristics :: "jsstring list"
  depth_stats :: pacific_depth_stats

record default_data =
  measurement_count :: real
  float_count :: real
  date_range :: jsstring
  parameters :: "jsstring list"

datatype DomainData =
    TemperatureAnomalyData anomaly_data
  | DepthProfileData depth_profile_data
  | TrendData trend_data
  | TemperatureTimeSeriesData time_series_data
  | SalinityData salinity_data
  | CurrentData current_data
  | AtlanticData atlantic_data
  | PacificData pacific_data
  | DefaultData default_data

subsection \<open>The ambient random source and clock\<close>

text \<open>
  The time-series generators call \<open>Math.random()\<close> and \<open>new Date()\<close>. Both are made
  explicit: \<open>random k\<close> is the value of the \<open>k\<close>-th call of \<open>Math.random()\<close> during one
  request, \<open>isoDate n k\<close> is what \<open>toISOString().split('T')[0]\<close> gives for the \<open>n\<close>-th
  \<open>new Date()\<close> of the request moved back by \<open>k\<close> days, and \<open>localeDate n k\<close> is what
  \<open>toLocaleDateString()\<close> gives for it. A draw is a double: the real that \<open>random\<close>
  gives is read as the double nearest to it, which is the draw itself when it is a double.
  A generator takes the numbers of draws and clock readings made so far and returns them
  updated.
\<close>

record ambient =
  random :: "nat \<Rightarrow> real"
  isoDate :: "nat \<Rightarrow> nat \<Rightarrow> jsstring"
  localeDate :: "nat \<Rightarrow> nat \<Rightarrow> jsstring"

record counters =
  draws :: nat
  readings :: nat

subsection \<open>Generators of the data payloads (lines 229 to 488)\<close>

definition generateTemperatureAnomalyData :: anomaly_data where
  "generateTemperatureAnomalyData =
     \<lparr> an_region = str ''North Atlantic'',
       an_parameter = str ''temperature'',
       anomalies =
         [ \<lparr> an_date = str ''2024-01-15'', an_value = 20.1, an_anomaly = 2.1,
             an_lat = 45.2, an_lon = - 30.1 \<rparr>,
           \<lparr> an_date = str ''2024-01-22'', an_value = 16.2, an_anomaly = - 1.8,
             an_lat = 47.8, an_lon = - 28.5 \<rparr>,
           \<lparr> an_date = str ''2024-02-03'', an_value = 21.2, an_anomaly = 3.2,
             an_lat = 44.1, an_lon = - 32.3 \<rparr> ],
       an_statistics =
         \<lparr> total_anomalies = 3, max_positive = 3.2, max_negative = - 1.8,
           confidence = 0.95 \<rparr> \<rparr>"

definition generateDepthProfileData :: depth_profile_data where
  "generateDepthProfileData =
     \<lparr> dp_depths = [0, 10, 20, 50, 100, 150, 200, 300, 500, 750, 1000, 1500, 2000],
       dp_temperatures =
         [22.1, 21.8, 21.2, 19.5, 16.8, 13.2, 10.5, 8.1, 6.2, 5.1, 4.8, 4.2, 4.0],
       dp_location =
         \<lparr> loc_lat = 40.5, loc_lon = - 30.0, loc_region = str ''North Atlantic'' \<rparr> \<rparr>"

definition generateTrendData :: trend_data where
  "generateTrendData =
     \<lparr> years = [2009, 2010, 2011, 2012, 2013, 2014, 2015, 2016, 2017, 2018, 2019, 2020,
                2021, 2022, 2023, 2024],
       tr_temperatures =
         [17.8, 17.9, 18.1, 18.0, 18.3, 18.4, 18.6, 18.8, 18.7, 19.0, 19.2, 19.1, 19.3,
          19.5, 19.4, 19.6],
       trend_slope = 0.015,
       r_squared = 0.87 \<rparr>"

text \<open>
  \<open>Array.from({length: 30}, f)\<close> calls \<open>f\<close> for the indices 0 to 29 in order. The dates
  are built first (30 clock readings), then the temperatures (30 draws). Each temperature is
  \<open>18.7 + (Math.random() - 0.5) * 4.6\<close>: a subtraction, a multiplication and an addition
  of doubles.
\<close>

definition generateTemperatureTimeSeriesData ::
  "ambient \<Rightarrow> counters \<Rightarrow> time_series_data \<times> counters" where
  "generateTemperatureTimeSeriesData env c =
     (\<lparr> ts_dates = map (\<lambda>i. isoDate env (readings c + i) (29 - i)) [0..<30],
        ts_temperatures =
          map (\<lambda>i. plus64 (binary64 18.7)
                (times64 (minus64 (binary64 (random env (draws c + i))) (binary64 0.5))
                   (binary64 4.6)))
            [0..<30],
        ts_statistics =
          \<lparr> ts_mean = 18.7, ts_std = 2.3, ts_min = 15.2, ts_max = 22.1,
            valid_measurements = 0.96, active_floats = 47 \<rparr> \<rparr>,
      \<lparr> draws = draws c + 30, readings = readings c + 30 \<rparr>)"

definition generateSalinityData :: salinity_data where
  "generateSalinityData =
     \<lparr> sal_depths = [0, 25, 50, 100, 200, 400, 600, 800, 1000, 1500, 2000],
       salinity = [34.8, 35.1, 35.3, 35.6, 35.8, 35.9, 35.9, 35.8, 35.7, 35.5, 35.4],
       sal_statistics = \<lparr> sal_mean = 35.2, sal_std = 0.4, halocline_depth = 250 \<rparr> \<rparr>"

definition generateCurrentData :: current_data where
  "generateCurrentData =
     \<lparr> velocities = [0.15, 0.23, 0.31, 0.28, 0.19, 0.34, 0.41, 0.38, 0.25, 0.29],
       directions = [225, 230, 235, 220, 240, 225, 215, 230, 235, 228],
       cur_statistics = \<lparr> mean_velocity = 0.28, predominant_direction = 228 \<rparr> \<rparr>"

definition generateAtlanticData :: atlantic_data where
  "generateAtlanticData =
     \<lparr> atl_region = str ''North Atlantic'',
       temperature_range = [12.5, 24.8],
       salinity_range = [34.2, 36.5],
       atl_characteristics =
         [str ''Gulf Stream influence'', str ''Strong seasonal cycles'',
          str ''Deep water formation''] \<rparr>"

definition generatePacificData :: pacific_data where
  "generatePacificData =
     \<lparr> pac_region = str ''Pacific Ocean'',
       area = str ''165.2 million km'' @ [0xB2],
       pac_characteristics =
         [str ''Largest ocean basin'', str ''Ring of Fire'',
          str ''El Ni'' @ [0xF1] @ str ''o/La Ni'' @ [0xF1] @ str ''a oscillations''],
       depth_stats = \<lparr> depth_mean = 4280, depth_max = 11034 \<rparr> \<rparr>"

definition generateDefaultData :: default_data where
  "generateDefaultData =
     \<lparr> measurement_count = 1247,
       float_count = 23,
       date_range = str ''2024-01-01 to 2024-02-01'',
       parameters = [str ''temperature'', str ''salinity'', str ''pressure''] \<rparr>"

section \<open>Visualizations\<close>

text \<open>
  A plot is a list of traces with a layout; a map is a list of markers. The \<open>x\<close> array of
  a trace holds either labels or numbers. Optional fields of the source objects are options.
\<close>

datatype axis_values = Labels "jsstring list" | Numbers "real list"

record line_style =
  line_color :: jsstring
  line_width :: real
  line_dash :: "jsstring option"

record marker_style =
  marker_color :: "jsstring option"
  marker_size :: "real option"
  marker_symbol :: "jsstring option"

record trace =
  trace_x :: axis_values
  trace_y :: "real list"
  trace_type :: jsstring
  trace_mode :: "jsstring option"
  trace_name :: jsstring
  trace_line :: "line_style option"
  trace_marker :: "marker_style option"

record axis_layout =
  axis_title :: jsstring
  autorange :: "jsstring option"

record plot_layout =
  title :: jsstring
  xaxis :: axis_layout
  yaxis :: axis_layout

record plot_payload =
  plot_data :: "trace list"
  layout :: plot_layout

record map_marker =
  mk_lat :: real
  mk_lon :: real
  mk_title :: jsstring
  mk_description :: jsstring
  mk_data :: "(jsstring \<times> jsstring) list"

record map_payload =
  markers :: "map_marker list"

datatype vis_payload = PlotPayload plot_payload | MapPayload map_payload

record visualization =
  vis_type :: jsstring
  vis_data :: vis_payload

subsection \<open>Generators of the visualizations (lines 245 to 506)\<close>

definition generateTemperatureAnomalyVisualization :: plot_payload where
  "generateTemperatureAnomalyVisualization =
     \<lparr> plot_data =
         [ \<lparr> trace_x = Labels [str ''Jan 1'', str ''Jan 8'', str ''Jan 15'', str ''Jan 22'',
                               str ''Jan 29'', str ''Feb 5'', str ''Feb 12'', str ''Feb 19'',
                               str ''Feb 26''],
             trace_y = [18.2, 18.5, 20.1, 16.2, 18.9, 21.2, 18.7, 19.1, 18.4],
             trace_type = str ''scatter'',
             trace_mode = Some (str ''lines+markers''),
             trace_name = str ''Temperature'',
             trace_line = Some \<lparr> line_color = str ''#0891b2'', line_width = 3,
                                  line_dash = None \<rparr>,
             trace_marker = Some \<lparr> marker_color = None, marker_size = Some 8,
                                    marker_symbol = None \<rparr> \<rparr>,
           \<lparr> trace_x = Labels [str ''Jan 15'', str ''Jan 22'', str ''Feb 5''],
             trace_y = [20.1, 16.2, 21.2],
             trace_type = str ''scatter'',
             trace_mode = Some (str ''markers''),
             trace_name = str ''Anomalies'',
             trace_line = None,
             trace_marker = Some \<lparr> marker_color = Some (str ''#dc2626''),
                                    marker_size = Some 12,
                                    marker_symbol = Some (str ''x'') \<rparr> \<rparr> ],
       layout =
         \<lparr> title = str ''Temperature Anomaly Detection'',
           xaxis = \<lparr> axis_title = str ''Date'', autorange = None \<rparr>,
           yaxis = \<lparr> axis_title = str ''Temperature ('' @ [0xB0] @ str ''C)'',
                     autorange = None \<rparr> \<rparr> \<rparr>"

definition generateDepthProfileVisualization :: plot_payload where
  "generateDepthProfileVisualization =
     \<lparr> plot_data =
         [ \<lparr> trace_x = Numbers [22.1, 21.8, 21.2, 19.5, 16.8, 13.2, 10.5, 8.1, 6.2, 5.1, 4.8,
                                4.2, 4.0],
             trace_y = [0, 10, 20, 50, 100, 150, 200, 300, 500, 750, 1000, 1500, 2000],
             trace_type = str ''scatter'',
             trace_mode = Some (str ''lines+markers''),
             trace_name = str ''Temperature Profile'',
             trace_line = Some \<lparr> line_color = str ''#dc2626'', line_width = 3,
                                  line_dash = None \<rparr>,
             trace_marker = None \<rparr> ],
       layout =
         \<lparr> title = str ''Ocean Temperature Depth Profile'',
           xaxis = \<lparr> axis_title = str ''Temperature ('' @ [0xB0] @ str ''C)'',
                     autorange = None \<rparr>,
           yaxis = \<lparr> axis_title = str ''Depth (m)'',
                     autorange = Some (str ''reversed'') \<rparr> \<rparr> \<rparr>"

definition generateTrendVisualization :: plot_payload where
  "generateTrendVisualization =
     \<lparr> plot_data =
         [ \<lparr> trace_x = Numbers [2009, 2010, 2011, 2012, 2013, 2014, 2015, 2016, 2017, 2018,
                                2019, 2020, 2021, 2022, 2023, 2024],
             trace_y = [17.8, 17.9, 18.1, 18.0, 18.3, 18.4, 18.6, 18.8, 18.7, 19.0, 19.2,
                        19.1, 19.3, 19.5, 19.4, 19.6],
             trace_type = str ''scatter'',
             trace_mode = Some (str ''lines+markers''),
             trace_name = str ''Annual Mean Temperature'',
             trace_line = Some \<lparr> line_color = str ''#0891b2'', line_width = 2,
                                  line_dash = None \<rparr>,
             trace_marker = None \<rparr>,
           \<lparr> trace_x = Numbers [2009, 2024],
             trace_y = [17.775, 19.625],
             trace_type = str ''scatter'',
             trace_mode = Some (str ''lines''),
             trace_name = str ''Trend (+0.15'' @ [0xB0] @ str ''C/decade)'',
             trace_line = Some \<lparr> line_color = str ''#dc2626'', line_width = 3,
                                  line_dash = Some (str ''dash'') \<rparr>,
             trace_marker = None \<rparr> ],
       layout =
         \<lparr> title = str ''Long-term Temperature Trend Analysis'',
           xaxis = \<lparr> axis_title = str ''Year'', autorange = None \<rparr>,
           yaxis = \<lparr> axis_title = str ''Temperature ('' @ [0xB0] @ str ''C)'',
                     autorange = None \<rparr> \<rparr> \<rparr>"

text \<open>
  The time-series plot builds its own dates and its own temperatures: 30 more clock
  readings, then 30 more draws of the random source.
\<close>

definition generateTemperatureTimeSeriesVisualization ::
  "ambient \<Rightarrow> counters \<Rightarrow> plot_payload \<times> counters" where
  "generateTemperatureTimeSeriesVisualization env c =
     (let dates = map (\<lambda>i. localeDate env (readings c + i) (29 - i)) [0..<30];
          temperatures =
            map (\<lambda>i. plus64 (binary64 18.7)
                  (times64 (minus64 (binary64 (random env (draws c + i))) (binary64 0.5))
                     (binary64 4.6)))
              [0..<30]
      in (\<lparr> plot_data =
               [ \<lparr> trace_x = Labels dates,
                   trace_y = temperatures,
                   trace_type = str ''scatter'',
                   trace_mode = Some (str ''lines+markers''),
                   trace_name = str ''Temperature'',
                   trace_line = Some \<lparr> line_color = str ''#0891b2'', line_width = 3,
                                        line_dash = None \<rparr>,
                   trace_marker = None \<rparr> ],
             layout =
               \<lparr> title = str ''Ocean Temperature Time Series'',
                 xaxis = \<lparr> axis_title = str ''Date'', autorange = None \<rparr>,
                 yaxis = \<lparr> axis_title = str ''Temperature ('' @ [0xB0] @ str ''C)'',
                           autorange = None \<rparr> \<rparr> \<rparr>,
          \<lparr> draws = draws c + 30, readings = readings c + 30 \<rparr>))"

definition generateTemperatureMapData :: map_payload where
  "generateTemperatureMapData =
     \<lparr> markers =
         [ \<lparr> mk_lat = 42.3, mk_lon = - 71.1, mk_title = str ''Float #2847'',
             mk_description = str ''Temperature: 19.2'' @ [0xB0] @ str ''C'',
             mk_data = [(str ''temp'', str ''19.2'' @ [0xB0] @ str ''C''),
                        (str ''salinity'', str ''35.1 PSU'')] \<rparr>,
           \<lparr> mk_lat = 40.7, mk_lon = - 74.0, mk_title = str ''Float #2851'',
             mk_description = str ''Temperature: 18.5'' @ [0xB0] @ str ''C'',
             mk_data = [(str ''temp'', str ''18.5'' @ [0xB0] @ str ''C''),
                        (str ''salinity'', str ''35.3 PSU'')] \<rparr>,
           \<lparr> mk_lat = 39.1, mk_lon = - 76.8, mk_title = str ''Float #2856'',
             mk_description = str ''Temperature: 17.8'' @ [0xB0] @ str ''C'',
             mk_data = [(str ''temp'', str ''17.8'' @ [0xB0] @ str ''C''),
                        (str ''salinity'', str ''35.0 PSU'')] \<rparr> ] \<rparr>"

definition generateSalinityVisualization :: plot_payload where
  "generateSalinityVisualization =
     \<lparr> plot_data =
         [ \<lparr> trace_x = Numbers [34.8, 35.1, 35.3, 35.6, 35.8, 35.9, 35.9, 35.8, 35.7, 35.5,
                                35.4],
             trace_y = [0, 25, 50, 100, 200, 400, 600, 800, 1000, 1500, 2000],
             trace_type = str ''scatter'',
             trace_mode = Some (str ''lines+markers''),
             trace_name = str ''Salinity Profile'',
             trace_line = Some \<lparr> line_color = str ''#059669'', line_width = 3,
                                  line_dash = None \<rparr>,
             trace_marker = None \<rparr> ],
       layout =
         \<lparr> title = str ''Ocean Salinity Depth Profile'',
           xaxis = \<lparr> axis_title = str ''Salinity (PSU)'', autorange = None \<rparr>,
           yaxis = \<lparr> axis_title = str ''Depth (m)'',
                     autorange = Some (str ''reversed'') \<rparr> \<rparr> \<rparr>"

definition generateCurrentMapData :: map_payload where
  "generateCurrentMapData =
     \<lparr> markers =
         [ \<lparr> mk_lat = 35.5, mk_lon = - 75.0, mk_title = str ''Current Station A'',
             mk_description = str ''Velocity: 0.31 m/s SW'',
             mk_data = [(str ''velocity'', str ''0.31 m/s''),
                        (str ''direction'', str ''225'' @ [0xB0])] \<rparr>,
           \<lparr> mk_lat = 36.2, mk_lon = - 74.5, mk_title = str ''Current Station B'',
             mk_description = str ''Velocity: 0.28 m/s SW'',
             mk_data = [(str ''velocity'', str ''0.28 m/s''),
                        (str ''direction'', str ''230'' @ [0xB0])] \<rparr> ] \<rparr>"

definition generateCurrentTimeSeriesVisualization :: plot_payload where
  "generateCurrentTimeSeriesVisualization =
     \<lparr> plot_data =
         [ \<lparr> trace_x = Labels [str ''Week 1'', str ''Week 2'', str ''Week 3'', str ''Week 4''],
             trace_y = [0.25, 0.32, 0.28, 0.31],
             trace_type = str ''bar'',
             trace_mode = None,
             trace_name = str ''Current Velocity'',
             trace_line = None,
             trace_marker = Some \<lparr> marker_color = Some (str ''#7c3aed''),
                                    marker_size = None, marker_symbol = None \<rparr> \<rparr> ],
       layout =
         \<lparr> title = str ''Ocean Current Velocity Over Time'',
           xaxis = \<lparr> axis_title = str ''Time Period'', autorange = None \<rparr>,
           yaxis = \<lparr> axis_title = str ''Velocity (m/s)'', autorange = None \<rparr> \<rparr> \<rparr>"

definition generateAtlanticMapData :: map_payload where
  "generateAtlanticMapData =
     \<lparr> markers =
         [ \<lparr> mk_lat = 40.0, mk_lon = - 70.0, mk_title = str ''Gulf Stream'',
             mk_description = str ''Warm current system'',
             mk_data = [(str ''temp'', str ''22.5'' @ [0xB0] @ str ''C''),
                        (str ''salinity'', str ''36.2 PSU'')] \<rparr>,
           \<lparr> mk_lat = 45.0, mk_lon = - 45.0, mk_title = str ''North Atlantic Current'',
             mk_description = str ''Extension of Gulf Stream'',
             mk_data = [(str ''temp'', str ''15.8'' @ [0xB0] @ str ''C''),
                        (str ''salinity'', str ''35.4 PSU'')] \<rparr>,
           \<lparr> mk_lat = 35.0, mk_lon = - 65.0, mk_title = str ''Sargasso Sea'',
             mk_description = str ''Subtropical gyre center'',
             mk_data = [(str ''temp'', str ''24.1'' @ [0xB0] @ str ''C''),
                        (str ''salinity'', str ''36.8 PSU'')] \<rparr> ] \<rparr>"

definition generateAtlanticTimeSeriesVisualization :: plot_payload where
  "generateAtlanticTimeSeriesVisualization =
     \<lparr> plot_data =
         [ \<lparr> trace_x = Labels [str ''Jan'', str ''Feb'', str ''Mar'', str ''Apr'', str ''May'',
                               str ''Jun'', str ''Jul'', str ''Aug'', str ''Sep'', str ''Oct'',
                               str ''Nov'', str ''Dec''],
             trace_y = [16.2, 15.8, 16.5, 18.2, 20.1, 22.5, 24.8, 24.2, 22.8, 20.5, 18.9,
                        17.1],
             trace_type = str ''scatter'',
             trace_mode = Some (str ''lines+markers''),
             trace_name = str ''North Atlantic SST'',
             trace_line = Some \<lparr> line_color = str ''#0891b2'', line_width = 3,
                                  line_dash = None \<rparr>,
             trace_marker = None \<rparr> ],
       layout =
         \<lparr> title = str ''North Atlantic Seasonal Temperature Cycle'',
           xaxis = \<lparr> axis_title = str ''Month'', autorange = None \<rparr>,
           yaxis = \<lparr> axis_title = str ''Temperature ('' @ [0xB0] @ str ''C)'',
                     autorange = None \<rparr> \<rparr> \<rparr>"

definition generatePacificMapData :: map_payload where
  "generatePacificMapData =
     \<lparr> markers =
         [ \<lparr> mk_lat = 0, mk_lon = - 150, mk_title = str ''Equatorial Pacific'',
             mk_description = str ''Upwelling zone'',
             mk_data = [(str ''temp'', str ''26.8'' @ [0xB0] @ str ''C''),
                        (str ''salinity'', str ''34.5 PSU'')] \<rparr>,
           \<lparr> mk_lat = 35, mk_lon = - 140, mk_title = str ''Kuroshio Current'',
             mk_description = str ''Western boundary current'',
             mk_data = [(str ''temp'', str ''18.5'' @ [0xB0] @ str ''C''),
                        (str ''salinity'', str ''34.8 PSU'')] \<rparr>,
           \<lparr> mk_lat = - 20, mk_lon = - 150, mk_title = str ''South Pacific Gyre'',
             mk_description = str ''Subtropical circulation'',
             mk_data = [(str ''temp'', str ''25.2'' @ [0xB0] @ str ''C''),
                        (str ''salinity'', str ''35.2 PSU'')] \<rparr> ] \<rparr>"

definition generateDefaultVisualization :: plot_payload where
  "generateDefaultVisualization =
     \<lparr> plot_data =
         [ \<lparr> trace_x = Labels [str ''Week 1'', str ''Week 2'', str ''Week 3'', str ''Week 4''],
             trace_y = [18.2, 18.7, 17.9, 19.1],
             trace_type = str ''scatter'',
             trace_mode = Some (str ''lines+markers''),
             trace_name = str ''Ocean Parameter'',
             trace_line = Some \<lparr> line_color = str ''#0891b2'', line_width = 3,
                                  line_dash = None \<rparr>,
             trace_marker = None \<rparr> ],
       layout =
         \<lparr> title = str ''Ocean Data Analysis'',
           xaxis = \<lparr> axis_title = str ''Time Period'', autorange = None \<rparr>,
           yaxis = \<lparr> axis_title = str ''Measurement Value'', autorange = None \<rparr> \<rparr> \<rparr>"

section \<open>The response engine\<close>

text \<open>
  A response has the four fields of the objects returned by \<open>generateMockResponse\<close>. Each
  branch of the \<open>if\<close> chain returns one object literal; the literals are given first, one
  definition per branch, then the chain itself. The fields of an object literal are
  evaluated in the order they are written: \<open>data\<close> before \<open>visualizations\<close>.
\<close>

record ResponseDocument =
  message :: jsstring
  data :: DomainData
  visualizations :: "visualization list"
  suggestions :: "jsstring list"

text \<open>Lines 46 to 61.\<close>

definition temperatureAnomalyResponse :: ResponseDocument where
  "temperatureAnomalyResponse =
     \<lparr> message = str ''I've analyzed temperature anomalies in the requested region. The data shows 3 significant temperature anomalies in the past month, with deviations of +2.1'' @ [0xB0] @ str ''C, -1.8'' @ [0xB0] @ str ''C, and +3.2'' @ [0xB0] @ str ''C from the seasonal average. These anomalies are highlighted in the visualization below.'',
       data = TemperatureAnomalyData generateTemperatureAnomalyData,
       visualizations =
         [ \<lparr> vis_type = str ''plot'', vis_data = PlotPayload generateTemperatureAnomalyVisualization \<rparr> ],
       suggestions =
         [ str ''Show depth profile for these anomalies'',
           str ''Compare with historical data'',
           str ''Analyze salinity during anomaly periods'',
           str ''Check ocean current patterns'' ] \<rparr>"

text \<open>Lines 63 to 78.\<close>

definition depthProfileResponse :: ResponseDocument where
  "depthProfileResponse =
     \<lparr> message = str ''Here's the temperature depth profile for the selected region. The thermocline is clearly visible at approximately 200-800m depth, with surface temperatures around 22'' @ [0xB0] @ str ''C decreasing to 4'' @ [0xB0] @ str ''C at 2000m depth.'',
       data = DepthProfileData generateDepthProfileData,
       visualizations =
         [ \<lparr> vis_type = str ''plot'', vis_data = PlotPayload generateDepthProfileVisualization \<rparr> ],
       suggestions =
         [ str ''Show salinity depth profile'',
           str ''Compare different seasons'',
           str ''Analyze thermocline variability'',
           str ''Display mixed layer depth'' ] \<rparr>"

text \<open>Lines 80 to 95.\<close>

definition trendResponse :: ResponseDocument where
  "trendResponse =
     \<lparr> message = str ''Temperature trend analysis shows a warming trend of +0.15'' @ [0xB0] @ str ''C per decade in this region. The analysis covers the last 15 years of ARGO data with high confidence intervals. Seasonal patterns show peak temperatures in August-September.'',
       data = TrendData generateTrendData,
       visualizations =
         [ \<lparr> vis_type = str ''plot'', vis_data = PlotPayload generateTrendVisualization \<rparr> ],
       suggestions =
         [ str ''Show confidence intervals'',
           str ''Compare with global trends'',
           str ''Analyze seasonal variations'',
           str ''Project future temperatures'' ] \<rparr>"

text \<open>Lines 97 to 116: the only branch that reads the random source and the clock.\<close>

definition temperatureGenericResponse :: "ambient \<Rightarrow> ResponseDocument" where
  "temperatureGenericResponse env =
     (let (d, c1) = generateTemperatureTimeSeriesData env \<lparr> draws = 0, readings = 0 \<rparr>;
          (v, c2) = generateTemperatureTimeSeriesVisualization env c1
      in \<lparr> message = str ''I've retrieved temperature data for your specified region and time period. The analysis shows mean temperatures of 18.7'' @ [0xB0] @ str ''C with a standard deviation of 2.3'' @ [0xB0] @ str ''C. Data quality is excellent with 96% valid measurements from 47 active floats.'',
           data = TemperatureTimeSeriesData d,
           visualizations =
             [ \<lparr> vis_type = str ''plot'', vis_data = PlotPayload v \<rparr>,
               \<lparr> vis_type = str ''map'', vis_data = MapPayload generateTemperatureMapData \<rparr> ],
           suggestions =
             [ str ''Show temperature depth profile'',
               str ''Analyze temperature anomalies'',
               str ''Compare with salinity data'',
               str ''Display seasonal patterns'' ] \<rparr>)"

text \<open>Lines 122 to 137.\<close>

definition salinityResponse :: ResponseDocument where
  "salinityResponse =
     \<lparr> message = str ''Salinity analysis completed for the requested area. Average salinity is 35.2 PSU with interesting variability near the surface due to precipitation and evaporation effects. The halocline is well-defined between 100-400m depth.'',
       data = SalinityData generateSalinityData,
       visualizations =
         [ \<lparr> vis_type = str ''plot'', vis_data = PlotPayload generateSalinityVisualization \<rparr> ],
       suggestions =
         [ str ''Show salinity-temperature relationship'',
           str ''Analyze density profiles'',
           str ''Display freshwater influence'',
           str ''Compare with temperature data'' ] \<rparr>"

text \<open>Lines 142 to 161.\<close>

definition currentResponse :: ResponseDocument where
  "currentResponse =
     \<lparr> message = str ''Ocean current analysis shows predominant southwestward flow with average velocities of 0.23 m/s. Strong seasonal variability is observed with peak velocities during winter months. The current structure shows typical characteristics of the regional circulation pattern.'',
       data = CurrentData generateCurrentData,
       visualizations =
         [ \<lparr> vis_type = str ''map'', vis_data = MapPayload generateCurrentMapData \<rparr>,
           \<lparr> vis_type = str ''plot'', vis_data = PlotPayload generateCurrentTimeSeriesVisualization \<rparr> ],
       suggestions =
         [ str ''Show velocity depth profile'',
           str ''Analyze current direction patterns'',
           str ''Compare with wind data'',
           str ''Display eddy activity'' ] \<rparr>"

text \<open>Lines 166 to 185.\<close>

definition atlanticResponse :: ResponseDocument where
  "atlanticResponse =
     \<lparr> message = str ''North Atlantic Ocean analysis reveals typical mid-latitude oceanic conditions. The region shows strong seasonal temperature cycles, well-developed thermocline structure, and characteristic salinity patterns influenced by the Gulf Stream system.'',
       data = AtlanticData generateAtlanticData,
       visualizations =
         [ \<lparr> vis_type = str ''map'', vis_data = MapPayload generateAtlanticMapData \<rparr>,
           \<lparr> vis_type = str ''plot'', vis_data = PlotPayload generateAtlanticTimeSeriesVisualization \<rparr> ],
       suggestions =
         [ str ''Analyze Gulf Stream influence'',
           str ''Show North Atlantic Oscillation effects'',
           str ''Compare with Pacific data'',
           str ''Display seasonal variations'' ] \<rparr>"

text \<open>Lines 189 to 204.\<close>

definition pacificResponse :: ResponseDocument where
  "pacificResponse =
     \<lparr> message = str ''Pacific Ocean data analysis reveals the vast scale and complexity of this ocean basin. Temperature patterns show strong equatorial upwelling, El Ni'' @ [0xF1] @ str ''o/La Ni'' @ [0xF1] @ str ''a influences, and distinct North-South gradients. The Pacific contains the world's deepest ocean trenches reflected in our depth profile data.'',
       data = PacificData generatePacificData,
       visualizations =
         [ \<lparr> vis_type = str ''map'', vis_data = MapPayload generatePacificMapData \<rparr> ],
       suggestions =
         [ str ''Show El Ni'' @ [0xF1] @ str ''o effects'',
           str ''Analyze Pacific Decadal Oscillation'',
           str ''Display equatorial upwelling'',
           str ''Compare North vs South Pacific'' ] \<rparr>"

text \<open>Lines 209 to 224.\<close>

definition defaultResponse :: ResponseDocument where
  "defaultResponse =
     \<lparr> message = str ''I've processed your ocean data query and prepared a comprehensive analysis. The data includes measurements from multiple ARGO floats covering temperature, salinity, and depth information. The visualization shows spatial and temporal patterns in the requested parameters.'',
       data = DefaultData generateDefaultData,
       visualizations =
         [ \<lparr> vis_type = str ''plot'', vis_data = PlotPayload generateDefaultVisualization \<rparr> ],
       suggestions =
         [ str ''Show me temperature trends'',
           str ''Analyze salinity patterns'',
           str ''Display depth profiles'',
           str ''Find temperature anomalies'' ] \<rparr>"

text \<open>
  \<open>generateMockResponse\<close>, lines 40 to 226. The specification calls it
  \<open>classifyAndRespond\<close>.
\<close>

definition generateMockResponse :: "ambient \<Rightarrow> jsstring \<Rightarrow> ResponseDocument" where
  "generateMockResponse env msg =
     (let lowerMessage = toLowerCase msg in
      if includes_js lowerMessage (str ''temperature'') then
        (if includes_js lowerMessage (str ''anomaly'') \<or> includes_js lowerMessage (str ''unusual'')
           then temperatureAnomalyResponse
         else if includes_js lowerMessage (str ''depth'') \<or> includes_js lowerMessage (str ''profile'')
           then depthProfileResponse
         else if includes_js lowerMessage (str ''trend'') then trendResponse
         else temperatureGenericResponse env)
      else if includes_js lowerMessage (str ''salinity'') then salinityResponse
      else if includes_js lowerMessage (str ''current'') \<or> includes_js lowerMessage (str ''velocity'')
        then currentResponse
      else if includes_js lowerMessage (str ''atlantic'') then atlanticResponse
      else if includes_js lowerMessage (str ''pacific'') then pacificResponse
      else defaultResponse)"

text \<open>The response of each branch, by the name of the branch.\<close>

fun respond :: "ambient \<Rightarrow> Intent \<Rightarrow> ResponseDocument" where
  "respond env TemperatureAnomaly = temperatureAnomalyResponse"
| "respond env TemperatureDepthProfile = depthProfileResponse"
| "respond env TemperatureTrend = trendResponse"
| "respond env TemperatureGeneric = temperatureGenericResponse env"
| "respond env Salinity = salinityResponse"
| "respond env CurrentVelocity = currentResponse"
| "respond env RegionAtlantic = atlanticResponse"
| "respond env RegionPacific = pacificResponse"
| "respond env Default = defaultResponse"

section \<open>The chat history request\<close>

text \<open>
  \<open>getChatHistory\<close> (lines 27 to 37) awaits \<open>axios.get\<close> inside \<open>try\<close> / \<open>catch\<close>. The
  HTTP client is a parameter: it answers a request with a response or rejects with an
  error value. An asynchronous function's result is \<open>Inr\<close> of the value it returns or
  \<open>Inl\<close> of the error it throws. \<open>console.error\<close> only writes to the console and is left
  out. \<open>a || b\<close> on an optional string is \<open>b\<close> when \<open>a\<close> is undefined or empty.
\<close>

datatype json =
    JNull
  | JBool bool
  | JNumber real
  | JString jsstring
  | JArray "json list"
  | JObject "(jsstring \<times> json) list"

record get_request =
  url :: jsstring
  params :: "(jsstring \<times> jsstring) list"

record axios_response =
  status :: nat
  response_data :: json

definition orElse :: "jsstring option \<Rightarrow> jsstring \<Rightarrow> jsstring" where
  "orElse a b = (case a of None \<Rightarrow> b | Some v \<Rightarrow> if v = [] then b else v)"

definition API_BASE_URL :: "jsstring option \<Rightarrow> jsstring" where
  "API_BASE_URL VITE_API_URL = orElse VITE_API_URL (str ''http://localhost:8000'')"

definition getChatHistory ::
  "jsstring option \<Rightarrow> (get_request \<Rightarrow> 'e + axios_response) \<Rightarrow> jsstring option \<Rightarrow> 'e + json" where
  "getChatHistory VITE_API_URL axios_get userId =
     (case axios_get \<lparr> url = API_BASE_URL VITE_API_URL @ str ''/api/chat/history'',
                       params = [(str ''user_id'', orElse userId (str ''demo''))] \<rparr> of
        Inr response \<Rightarrow> Inr (response_data response)
      | Inl error \<Rightarrow> Inr (JObject [(str ''messages'', JArray [])]))"

section \<open>Notions used to state the properties\<close>

text \<open>
  Two ambient worlds for concrete runs: a random source that always returns the same value,
  and one that returns 0 for its first 30 draws and 0.5 afterwards. Both have a stopped
  clock.
\<close>

definition steadySource :: "real \<Rightarrow> ambient" where
  "steadySource r =
     \<lparr> random = (\<lambda>k. r),
       isoDate = (\<lambda>n k. str ''2024-02-01''),
       localeDate = (\<lambda>n k. str ''2/1/2024'') \<rparr>"


text \<open>
  The jitter of a draw \<open>r\<close>: \<open>(r - 0.5) * 4.6\<close> in the arithmetic of the language. A
  temperature of the time series is 18.7 plus the jitter of its draw.
\<close>

definition jitter :: "real \<Rightarrow> real" where
  "jitter r = times64 (minus64 (binary64 r) (binary64 0.5)) (binary64 4.6)"

text \<open>
  The doubles that the language reads the literals 18.7, 4.6 and 16.4 as, written as
  fractions; the double of 2.3 is half the double of 4.6.
\<close>

definition double_18_7 :: real where
  "double_18_7 = 5263582064489267 / 2 ^ 48"

definition double_4_6 :: real where
  "double_4_6 = 2589569785738035 / 2 ^ 49"

definition double_16_4 :: real where
  "double_16_4 = 2308094809027379 / 2 ^ 47"



text \<open>
  Two code units are the same letter of the alphabet A to Z up to case: they are equal, or
  one is a capital A to Z and the other is its small letter.
\<close>

definition asciiCaseEq :: "code_unit \<Rightarrow> code_unit \<Rightarrow> bool" where
  "asciiCaseEq a b =
     (a = b \<or> (0x41 \<le> a \<and> a \<le> 0x5A \<and> b = a + 0x20)
            \<or> (0x41 \<le> b \<and> b \<le> 0x5A \<and> a = b + 0x20))"

text \<open>The word \<open>pacific\<close> written with the dotless i U+0131 in place of each i.\<close>

definition pacific_dotless :: jsstring where
  "pacific_dotless = [0x70, 0x61, 0x63, 0x131, 0x66, 0x131, 0x63]"

section \<open>Properties of the engine\<close>

subsection \<open>Substring search\<close>

text \<open>
  \<open>includes_js\<close> is containment as a contiguous block: the text is some prefix, then the
  needle, then some suffix.
\<close>

lemma startsWith_prefix: "startsWith s needle = prefix needle s"
  by (induction s needle rule: startsWith.induct) auto

lemma includes_js_sublist: "includes_js s needle = sublist needle s"
  by (induction s) (simp_all add: startsWith_prefix sublist_Cons_right)

lemma includes_js_iff: "includes_js s needle = (\<exists>before after. s = before @ needle @ after)"
  by (simp add: includes_js_sublist sublist_def)

subsection \<open>The chain of tests and the branch responses\<close>

lemma generateMockResponse_respond:
  "generateMockResponse env msg = respond env (resolve (toLowerCase msg))"
  by (simp add: generateMockResponse_def resolve_def Let_def)

lemma resolve_show_anomaly:
  "resolve (toLowerCase (str ''Show temperature anomaly'')) = TemperatureAnomaly"
  by (simp add: resolve_def toLowerCase_def lowerUnit_def str_def)

lemma resolve_temperature:
  "resolve (toLowerCase (str ''temperature'')) = TemperatureGeneric"
  by (simp add: resolve_def toLowerCase_def lowerUnit_def str_def)

lemma resolve_depth:
  "resolve (toLowerCase (str ''temperature depth profile'')) = TemperatureDepthProfile"
  by (simp add: resolve_def toLowerCase_def lowerUnit_def str_def)

lemma resolve_trend:
  "resolve (toLowerCase (str ''TEMPERATURE trend'')) = TemperatureTrend"
  "resolve (toLowerCase (str ''temperature TREND'')) = TemperatureTrend"
  by (simp_all add: resolve_def toLowerCase_def lowerUnit_def str_def)

lemma both_keywords_example:
  "includes_js (toLowerCase (str ''Salinity and TEMPERATURE trend'')) (str ''temperature'')"
  "includes_js (toLowerCase (str ''Salinity and TEMPERATURE trend'')) (str ''salinity'')"
  by (simp_all add: toLowerCase_def lowerUnit_def str_def)

lemma temperature_data_not_salinity:
  "data temperatureAnomalyResponse \<noteq> data salinityResponse"
  "data depthProfileResponse \<noteq> data salinityResponse"
  "data trendResponse \<noteq> data salinityResponse"
  "data (temperatureGenericResponse env) \<noteq> data salinityResponse"
  by (simp_all add: temperatureAnomalyResponse_def depthProfileResponse_def trendResponse_def
      temperatureGenericResponse_def salinityResponse_def Let_def split_def)

lemmas branch_defs =
  temperatureAnomalyResponse_def depthProfileResponse_def trendResponse_def
  temperatureGenericResponse_def salinityResponse_def currentResponse_def
  atlanticResponse_def pacificResponse_def defaultResponse_def

lemma message_nonempty: "message (respond env i) \<noteq> []"
  by (cases i) (simp_all add: branch_defs Let_def split_def str_def)

lemma suggestions_four: "length (suggestions (respond env i)) = 4"
  by (cases i) (simp_all add: branch_defs Let_def split_def)

lemma visualizations_count:
  "length (visualizations (respond env i)) =
     (if i \<in> {TemperatureGeneric, CurrentVelocity, RegionAtlantic} then 2 else 1)"
  by (cases i) (simp_all add: branch_defs Let_def split_def)

text \<open>
  Claim C1. Whenever the lower-cased message contains both \<open>temperature\<close> and \<open>salinity\<close>,
  the chain of tests stops in one of the four temperature branches and never in the salinity
  branch: the intent is one of the four temperature intents, and the response returned is
  one of the four temperature responses, whose data differs from the salinity data.
\<close>

theorem temperature_before_salinity:
  assumes "includes_js (toLowerCase s) (str ''temperature'')"
      and "includes_js (toLowerCase s) (str ''salinity'')"
  shows "resolve (toLowerCase s) \<in>
           {TemperatureAnomaly, TemperatureDepthProfile, TemperatureTrend, TemperatureGeneric}
         \<and> resolve (toLowerCase s) \<noteq> Salinity
         \<and> generateMockResponse env s \<in>
           {temperatureAnomalyResponse, depthProfileResponse, trendResponse,
            temperatureGenericResponse env}
         \<and> data (generateMockResponse env s) \<noteq> data salinityResponse"
  using assms temperature_data_not_salinity
  by (simp add: resolve_def generateMockResponse_def Let_def)

theorem temperature_before_salinity_witness:
  "includes_js (toLowerCase (str ''Salinity and TEMPERATURE trend'')) (str ''temperature'')
   \<and> includes_js (toLowerCase (str ''Salinity and TEMPERATURE trend'')) (str ''salinity'')
   \<and> resolve (toLowerCase (str ''Salinity and TEMPERATURE trend'')) \<noteq> Salinity"
proof -
  note h = both_keywords_example
  from temperature_before_salinity [OF h]
  have "resolve (toLowerCase (str ''Salinity and TEMPERATURE trend'')) \<noteq> Salinity"
    by simp
  with h show ?thesis by simp
qed

text \<open>
  Claim C2. For the message \<open>Show temperature anomaly\<close> the data payload is the anomaly
  payload: its list of anomalies has exactly 3 entries, their \<open>anomaly\<close> fields are 2.1, -1.8
  and 3.2 in that order, the confidence is 0.95, and the whole response is the same for every
  random source and clock.
\<close>

theorem show_temperature_anomaly:
  "data (generateMockResponse env (str ''Show temperature anomaly'')) =
     TemperatureAnomalyData generateTemperatureAnomalyData
   \<and> length (anomalies generateTemperatureAnomalyData) = 3
   \<and> map an_anomaly (anomalies generateTemperatureAnomalyData) = [2.1, - 1.8, 3.2]
   \<and> confidence (an_statistics generateTemperatureAnomalyData) = 0.95
   \<and> generateMockResponse env (str ''Show temperature anomaly'') =
       generateMockResponse env' (str ''Show temperature anomaly'')"
  by (simp add: generateMockResponse_respond resolve_show_anomaly
      temperatureAnomalyResponse_def generateTemperatureAnomalyData_def)

text \<open>
  Claim C3. For every message, whatever its code units, and every random source and clock,
  the response has a non-empty message, exactly 4 suggestions and at least 1 visualization.
  The function has no failing path: it is total on strings.
\<close>

theorem response_well_formed:
  "message (generateMockResponse env s) \<noteq> []
   \<and> length (suggestions (generateMockResponse env s)) = 4
   \<and> 1 \<le> length (visualizations (generateMockResponse env s))"
  by (simp add: generateMockResponse_respond message_nonempty suggestions_four
      visualizations_count)

text \<open>
  Claim C10. In the anomaly payload the statistics agree with the list: \<open>total_anomalies\<close>
  is the length of the list (3), \<open>max_positive\<close> is the greatest \<open>anomaly\<close> field (3.2) and
  \<open>max_negative\<close> is the least one (-1.8).
\<close>

theorem anomaly_statistics_consistent:
  "total_anomalies (an_statistics generateTemperatureAnomalyData) =
     real (length (anomalies generateTemperatureAnomalyData))
   \<and> total_anomalies (an_statistics generateTemperatureAnomalyData) = 3
   \<and> max_positive (an_statistics generateTemperatureAnomalyData) =
       Max (set (map an_anomaly (anomalies generateTemperatureAnomalyData)))
   \<and> max_positive (an_statistics generateTemperatureAnomalyData) = 3.2
   \<and> max_negative (an_statistics generateTemperatureAnomalyData) =
       Min (set (map an_anomaly (anomalies generateTemperatureAnomalyData)))
   \<and> max_negative (an_statistics generateTemperatureAnomalyData) = - 1.8"
  by (simp add: generateTemperatureAnomalyData_def)

subsection \<open>Rounding to the nearest double\<close>

text \<open>
  Rounding is monotone, and it leaves a number unchanged when the number is a whole multiple
  of its quantum. \<open>binary64_eval\<close> computes the rounding of a number whose binade is known.
\<close>

lemma tiny_pos: "0 < tiny"
  by (simp add: tiny_def)

lemma roundHalfEven_of_int [simp]: "roundHalfEven (of_int m) = m"
  by (simp add: roundHalfEven_def)

lemma roundHalfEven_range: "\<lfloor>y\<rfloor> \<le> roundHalfEven y \<and> roundHalfEven y \<le> \<lfloor>y\<rfloor> + 1"
  by (simp add: roundHalfEven_def Let_def)

lemma roundHalfEven_mono:
  assumes "y \<le> z"
  shows "roundHalfEven y \<le> roundHalfEven z"
proof (cases "\<lfloor>y\<rfloor> = \<lfloor>z\<rfloor>")
  case True
  with assms show ?thesis
    by (auto simp add: roundHalfEven_def Let_def)
next
  case False
  with assms have "\<lfloor>y\<rfloor> + 1 \<le> \<lfloor>z\<rfloor>"
    using floor_mono [of y z] by linarith
  with roundHalfEven_range [of y] roundHalfEven_range [of z] show ?thesis
    by linarith
qed

lemma quantum_pos: "0 < quantum x"
  by (simp add: quantum_def tiny_pos)

lemma shift_mono: "\<bar>x\<bar> \<le> \<bar>y\<bar> \<Longrightarrow> shift x \<le> shift y"
  unfolding shift_def bitlen_def using tiny_pos
  by (intro nat_mono diff_right_mono)
    (simp add: floorlog_mono nat_mono floor_mono divide_right_mono)

lemma below_top: "\<bar>x\<bar> < 2 ^ 53 * quantum x"
proof -
  define a where "a = \<bar>x\<bar> / tiny"
  have "bitlen \<lfloor>a\<rfloor> \<le> 53 + int (shift x)"
    by (simp add: shift_def a_def)
  then have "\<lfloor>a\<rfloor> < 2 ^ (53 + shift x)"
    by (simp add: bitlen_le_iff_power nat_add_distrib)
  then have "\<lfloor>a\<rfloor> + 1 \<le> 2 ^ (53 + shift x)" by simp
  then have "real_of_int (\<lfloor>a\<rfloor> + 1) \<le> real_of_int (2 ^ (53 + shift x))"
    by (rule of_int_le_iff [THEN iffD2])
  then have "real_of_int \<lfloor>a\<rfloor> + 1 \<le> 2 ^ (53 + shift x)" by simp
  then have "a < 2 ^ (53 + shift x)" by linarith
  then have "\<bar>x\<bar> < 2 ^ (53 + shift x) * tiny"
    using tiny_pos by (simp add: a_def pos_divide_less_eq)
  then show ?thesis
    by (simp add: quantum_def power_add mult.assoc)
qed

lemma above_bottom:
  assumes "0 < shift x"
  shows "2 ^ 52 * quantum x \<le> \<bar>x\<bar>"
proof -
  define a where "a = \<bar>x\<bar> / tiny"
  from assms have "53 + int (shift x) \<le> bitlen \<lfloor>a\<rfloor>"
    by (simp add: shift_def a_def)
  then have "2 ^ (52 + shift x) \<le> \<lfloor>a\<rfloor>"
    by (simp add: bitlen_ge_iff_power nat_add_distrib)
  then have "real_of_int (2 ^ (52 + shift x)) \<le> real_of_int \<lfloor>a\<rfloor>"
    by (rule of_int_le_iff [THEN iffD2])
  then have "2 ^ (52 + shift x) \<le> real_of_int \<lfloor>a\<rfloor>" by simp
  then have "2 ^ (52 + shift x) \<le> a" by linarith
  then have "2 ^ (52 + shift x) * tiny \<le> \<bar>x\<bar>"
    using tiny_pos by (simp add: a_def pos_le_divide_eq)
  then show ?thesis
    by (simp add: quantum_def power_add mult.assoc)
qed

lemma quantumI:
  assumes "2 ^ 52 * (2 ^ s * tiny) \<le> \<bar>x\<bar>" "\<bar>x\<bar> < 2 ^ 53 * (2 ^ s * tiny)"
  shows "quantum x = 2 ^ s * tiny"
proof -
  define a where "a = \<bar>x\<bar> / tiny"
  have lo: "2 ^ (52 + s) \<le> a" and hi: "a < 2 ^ (53 + s)"
    using assms tiny_pos
    by (simp_all add: a_def power_add pos_le_divide_eq pos_divide_less_eq mult.assoc)
  have "real_of_int (2 ^ (52 + s)) \<le> a" using lo by simp
  then have "2 ^ (52 + s) \<le> \<lfloor>a\<rfloor>" by (rule le_floor_iff [THEN iffD2])
  then have l: "53 + int s \<le> bitlen \<lfloor>a\<rfloor>"
    by (simp add: bitlen_ge_iff_power nat_add_distrib)
  from hi have "real_of_int \<lfloor>a\<rfloor> < 2 ^ (53 + s)" by linarith
  then have "real_of_int \<lfloor>a\<rfloor> < real_of_int (2 ^ (53 + s))" by simp
  then have "\<lfloor>a\<rfloor> < 2 ^ (53 + s)" by (rule of_int_less_iff [THEN iffD1])
  then have u: "bitlen \<lfloor>a\<rfloor> \<le> 53 + int s"
    by (simp add: bitlen_le_iff_power nat_add_distrib)
  from l u have "shift x = s" by (simp add: shift_def a_def)
  then show ?thesis by (simp add: quantum_def)
qed

lemma binary64_eval:
  assumes "2 ^ 52 * (2 ^ s * tiny) \<le> \<bar>x\<bar>" "\<bar>x\<bar> < 2 ^ 53 * (2 ^ s * tiny)"
  shows "binary64 x = of_int (roundHalfEven (x / (2 ^ s * tiny))) * (2 ^ s * tiny)"
  using quantumI [OF assms] by (simp add: binary64_def)

lemma binary64_zero: "binary64 0 = 0"
  by (simp add: binary64_def roundHalfEven_def)

lemma binary64_ge:
  assumes "of_int m * quantum x \<le> x"
  shows "of_int m * quantum x \<le> binary64 x"
proof -
  from assms have "of_int m \<le> x / quantum x"
    using quantum_pos [of x] by (simp add: pos_le_divide_eq)
  from roundHalfEven_mono [OF this] have "m \<le> roundHalfEven (x / quantum x)" by simp
  then have "real_of_int m \<le> of_int (roundHalfEven (x / quantum x))" by simp
  then show ?thesis
    unfolding binary64_def using quantum_pos [of x] by (intro mult_right_mono) simp_all
qed

lemma binary64_le:
  assumes "x \<le> of_int m * quantum x"
  shows "binary64 x \<le> of_int m * quantum x"
proof -
  from assms have "x / quantum x \<le> of_int m"
    using quantum_pos [of x] by (simp add: pos_divide_le_eq)
  from roundHalfEven_mono [OF this] have "roundHalfEven (x / quantum x) \<le> m" by simp
  then have "real_of_int (roundHalfEven (x / quantum x)) \<le> of_int m" by simp
  then show ?thesis
    unfolding binary64_def using quantum_pos [of x] by (intro mult_right_mono) simp_all
qed

lemma quantum_double:
  assumes "shift x < shift y"
  shows "2 * quantum x \<le> quantum y"
proof -
  from assms have "Suc (shift x) \<le> shift y" by simp
  then have "(2::real) ^ Suc (shift x) \<le> 2 ^ shift y"
    by (intro power_increasing) simp_all
  then show ?thesis
    unfolding quantum_def using tiny_pos by (simp add: mult.assoc [symmetric])
qed

theorem binary64_mono:
  assumes "x \<le> y"
  shows "binary64 x \<le> binary64 y"
proof -
  consider (same) "shift x = shift y" | (up) "shift x < shift y" | (down) "shift y < shift x"
    by linarith
  then show ?thesis
  proof cases
    case same
    then have q: "quantum x = quantum y" by (simp add: quantum_def)
    from assms have "x / quantum y \<le> y / quantum y"
      using quantum_pos [of y] by (simp add: divide_right_mono)
    from roundHalfEven_mono [OF this]
    have "real_of_int (roundHalfEven (x / quantum y)) \<le> of_int (roundHalfEven (y / quantum y))"
      by simp
    then show ?thesis
      unfolding binary64_def q using quantum_pos [of y] by (intro mult_right_mono) simp_all
  next
    case up
    then have "\<not> \<bar>y\<bar> \<le> \<bar>x\<bar>" using shift_mono [of y x] by auto
    with assms have "0 < y" by linarith
    from up have "0 < shift y" by simp
    from above_bottom [OF this] \<open>0 < y\<close> have "of_int (2 ^ 52) * quantum y \<le> y" by simp
    from binary64_ge [OF this] have lo: "2 ^ 52 * quantum y \<le> binary64 y" by simp
    have "x \<le> of_int (2 ^ 53) * quantum x" using below_top [of x] by simp
    from binary64_le [OF this] have "binary64 x \<le> 2 ^ 53 * quantum x" by simp
    also have "\<dots> = 2 ^ 52 * (2 * quantum x)" by simp
    also have "\<dots> \<le> 2 ^ 52 * quantum y"
      using quantum_double [OF up] by (intro mult_left_mono) simp_all
    finally show ?thesis using lo by linarith
  next
    case down
    then have "\<not> \<bar>x\<bar> \<le> \<bar>y\<bar>" using shift_mono [of x y] by auto
    with assms have "x < 0" by linarith
    from down have "0 < shift x" by simp
    from above_bottom [OF this] \<open>x < 0\<close> have "x \<le> of_int (- (2 ^ 52)) * quantum x" by simp
    from binary64_le [OF this] have hi: "binary64 x \<le> - (2 ^ 52 * quantum x)" by simp
    have "of_int (- (2 ^ 53)) * quantum y \<le> y" using below_top [of y] by simp
    from binary64_ge [OF this] have "- (2 ^ 53 * quantum y) \<le> binary64 y" by simp
    moreover have "2 ^ 53 * quantum y = 2 ^ 52 * (2 * quantum y)" by simp
    moreover have "2 ^ 52 * (2 * quantum y) \<le> 2 ^ 52 * quantum x"
      using quantum_double [OF down] by (intro mult_left_mono) simp_all
    ultimately show ?thesis using hi by linarith
  qed
qed


lemma binary64_18_7: "binary64 18.7 = double_18_7"
  using binary64_eval [of 1026 "18.7"]
  by (simp add: tiny_def roundHalfEven_def double_18_7_def)

lemma binary64_4_6: "binary64 4.6 = double_4_6"
  using binary64_eval [of 1024 "4.6"]
  by (simp add: tiny_def roundHalfEven_def double_4_6_def)

lemma binary64_16_4: "binary64 16.4 = double_16_4"
  using binary64_eval [of 1026 "16.4"]
  by (simp add: tiny_def roundHalfEven_def double_16_4_def)

lemma binary64_2_3: "binary64 2.3 = double_4_6 / 2"
  using binary64_eval [of 1023 "2.3"]
  by (simp add: tiny_def roundHalfEven_def double_4_6_def)

lemma binary64_half: "binary64 0.5 = 1 / 2"
  using binary64_eval [of 1021 "0.5"]
  by (simp add: tiny_def roundHalfEven_def)

lemma binary64_21: "binary64 21.0 = 21"
  using binary64_eval [of 1026 "21.0"]
  by (simp add: tiny_def roundHalfEven_def)

lemma binary64_one: "binary64 1 = 1"
  using binary64_eval [of 1022 1]
  by (simp add: tiny_def roundHalfEven_def)

lemma binary64_minus_half: "binary64 (- (1 / 2)) = - (1 / 2)"
  using binary64_eval [of 1021 "- (1 / 2)"]
  by (simp add: tiny_def roundHalfEven_def)

lemma binary64_half_half: "binary64 (1 / 2) = 1 / 2"
  using binary64_half by simp

lemma binary64_double_2_3:
  "binary64 (double_4_6 / 2) = double_4_6 / 2"
  "binary64 (- (double_4_6 / 2)) = - (double_4_6 / 2)"
  using binary64_eval [of 1023 "double_4_6 / 2"] binary64_eval [of 1023 "- (double_4_6 / 2)"]
  by (simp_all add: tiny_def roundHalfEven_def double_4_6_def)

lemma binary64_double_16_4: "binary64 double_16_4 = double_16_4"
  using binary64_eval [of 1026 double_16_4]
  by (simp add: tiny_def roundHalfEven_def double_16_4_def)


lemma binary64_lowest: "binary64 (double_18_7 - double_4_6 / 2) = double_16_4"
  using binary64_eval [of 1026 "double_18_7 - double_4_6 / 2"]
  by (simp add: tiny_def roundHalfEven_def double_18_7_def double_4_6_def double_16_4_def)

subsection \<open>The time series of the generic temperature branch\<close>

text \<open>
  The bounds of the jitter and of the temperatures follow from the monotonicity of rounding:
  the extreme cases are a draw that rounds to 0 and a draw that rounds to 1.
\<close>

lemma draw_range:
  assumes "0 \<le> r" "r < 1"
  shows "0 \<le> binary64 r \<and> binary64 r \<le> 1"
  using binary64_mono [of 0 r] binary64_mono [of r 1] assms
  by (simp add: binary64_zero binary64_one)

lemma jitter_bounds:
  assumes "0 \<le> r" "r < 1"
  shows "- binary64 2.3 \<le> jitter r \<and> jitter r \<le> binary64 2.3"
proof -
  have pos: "0 < double_4_6" by (simp add: double_4_6_def)
  define d where "d = minus64 (binary64 r) (binary64 0.5)"
  have d: "d = binary64 (binary64 r - 1 / 2)"
    by (simp only: d_def minus64_def binary64_half)
  from draw_range [OF assms] have "- (1 / 2) \<le> binary64 r - 1 / 2" "binary64 r - 1 / 2 \<le> 1 / 2"
    by simp_all
  then have "- (1 / 2) \<le> d" "d \<le> 1 / 2"
    using binary64_mono [of "- (1 / 2)" "binary64 r - 1 / 2"]
      binary64_mono [of "binary64 r - 1 / 2" "1 / 2"]
    by (simp_all only: d binary64_minus_half binary64_half_half)
  then have "(- (1 / 2)) * double_4_6 \<le> d * double_4_6" "d * double_4_6 \<le> (1 / 2) * double_4_6"
    using pos by (intro mult_right_mono; simp)+
  then have "- (double_4_6 / 2) \<le> d * double_4_6" "d * double_4_6 \<le> double_4_6 / 2"
    by simp_all
  then have "- (double_4_6 / 2) \<le> binary64 (d * double_4_6)"
    "binary64 (d * double_4_6) \<le> double_4_6 / 2"
    using binary64_mono [of "- (double_4_6 / 2)" "d * double_4_6"]
      binary64_mono [of "d * double_4_6" "double_4_6 / 2"]
    by (simp_all only: binary64_double_2_3)
  moreover have "jitter r = binary64 (d * double_4_6)"
    by (simp only: jitter_def times64_def d_def binary64_4_6)
  ultimately show ?thesis by (simp only: binary64_2_3)
qed

lemma jittered_bounds:
  assumes "0 \<le> r" "r < 1"
  shows "binary64 16.4 \<le> plus64 (binary64 18.7) (jitter r)
         \<and> plus64 (binary64 18.7) (jitter r) \<le> binary64 21.0"
proof -
  from jitter_bounds [OF assms]
  have j: "- (double_4_6 / 2) \<le> jitter r" "jitter r \<le> double_4_6 / 2"
    by (simp_all only: binary64_2_3)
  have hi: "double_18_7 + double_4_6 / 2 \<le> 21"
    by (simp add: double_18_7_def double_4_6_def)
  have "double_18_7 - double_4_6 / 2 \<le> double_18_7 + jitter r" using j(1) by linarith
  from binary64_mono [OF this] have "double_16_4 \<le> binary64 (double_18_7 + jitter r)"
    by (simp only: binary64_lowest)
  moreover have "double_18_7 + jitter r \<le> 21" using j(2) hi by linarith
  from binary64_mono [OF this] have "binary64 (double_18_7 + jitter r) \<le> 21"
    using binary64_21 by simp
  ultimately show ?thesis
    by (simp only: plus64_def binary64_18_7 binary64_16_4 binary64_21)
qed







lemma generic_data:
  "data (temperatureGenericResponse env) =
     TemperatureTimeSeriesData
       \<lparr> ts_dates = map (\<lambda>i. isoDate env i (29 - i)) [0..<30],
         ts_temperatures = map (\<lambda>i. plus64 (binary64 18.7) (jitter (random env i))) [0..<30],
         ts_statistics =
           \<lparr> ts_mean = 18.7, ts_std = 2.3, ts_min = 15.2, ts_max = 22.1,
             valid_measurements = 0.96, active_floats = 47 \<rparr> \<rparr>"
  by (simp add: temperatureGenericResponse_def generateTemperatureTimeSeriesData_def
      generateTemperatureTimeSeriesVisualization_def Let_def split_def jitter_def)





text \<open>
  Claim C4. For the message \<open>temperature\<close> and every random source with draws in [0, 1),
  the data payload is the time-series payload. Its temperatures array has 30 values; the
  value at index \<open>i\<close> is 18.7 plus the jitter \<open>(r - 0.5) * 4.6\<close> of the \<open>i\<close>-th draw
  \<open>r\<close>, computed in the arithmetic of the language. Every jitter lies within [-2.3, 2.3] and
  every value within [16.4, 21.0], the bounds being the numbers that the language reads
  these literals as. The statistics block is the fixed one, whatever the draws. That the
  draws are uniformly distributed is not part of the statement.
\<close>

theorem generic_temperature_bounds:
  assumes "\<And>k. 0 \<le> random env k \<and> random env k < 1"
  shows "case data (generateMockResponse env (str ''temperature'')) of
           TemperatureTimeSeriesData d \<Rightarrow>
             ts_temperatures d =
               map (\<lambda>i. plus64 (binary64 18.7) (jitter (random env i))) [0..<30]
             \<and> length (ts_temperatures d) = 30
             \<and> (\<forall>t \<in> set (ts_temperatures d). binary64 16.4 \<le> t \<and> t \<le> binary64 21.0)
             \<and> (\<forall>k. - binary64 2.3 \<le> jitter (random env k)
                      \<and> jitter (random env k) \<le> binary64 2.3)
             \<and> ts_statistics d =
                 \<lparr> ts_mean = 18.7, ts_std = 2.3, ts_min = 15.2, ts_max = 22.1,
                   valid_measurements = 0.96, active_floats = 47 \<rparr>
         | _ \<Rightarrow> False"
proof -
  have j: "- binary64 2.3 \<le> jitter (random env k) \<and> jitter (random env k) \<le> binary64 2.3"
    for k
    using assms [of k] jitter_bounds [of "random env k"] by blast
  have t: "binary64 16.4 \<le> plus64 (binary64 18.7) (jitter (random env k))
        \<and> plus64 (binary64 18.7) (jitter (random env k)) \<le> binary64 21.0" for k
    using assms [of k] jittered_bounds [of "random env k"] by blast
  have "\<forall>t \<in> set (map (\<lambda>i. plus64 (binary64 18.7) (jitter (random env i))) [0..<30]).
          binary64 16.4 \<le> t \<and> t \<le> binary64 21.0"
    using t by (simp only: set_map ball_simps) blast
  with j show ?thesis
    by (simp only: generateMockResponse_respond resolve_temperature respond.simps generic_data
        DomainData.case time_series_data.simps length_map length_upt) simp
qed

theorem generic_temperature_bounds_witness:
  "(\<forall>k. 0 \<le> random (steadySource 0.25) k \<and> random (steadySource 0.25) k < 1)
   \<and> (case data (generateMockResponse (steadySource 0.25) (str ''temperature'')) of
         TemperatureTimeSeriesData d \<Rightarrow>
           length (ts_temperatures d) = 30
           \<and> list_all (\<lambda>t. binary64 16.4 \<le> t \<and> t \<le> binary64 21.0) (ts_temperatures d)
       | _ \<Rightarrow> False)"
proof -
  have h: "\<And>k. 0 \<le> random (steadySource 0.25) k \<and> random (steadySource 0.25) k < 1"
    by (simp add: steadySource_def)
  from generic_temperature_bounds [of "steadySource 0.25", OF h] h show ?thesis
    by (cases "data (generateMockResponse (steadySource 0.25) (str ''temperature''))")
      (simp_all add: list_all_iff)
qed

subsection \<open>The fixed payloads\<close>

text \<open>
  Claim C5. For the message \<open>temperature depth profile\<close> the data payload is the depth
  profile: 13 depths and 13 temperatures, first depth 0, last depth 2000, first temperature
  22.1, last temperature 4.0; the depths increase strictly and the temperatures decrease
  strictly, so they never increase.
\<close>

theorem depth_profile_shape:
  "case data (generateMockResponse env (str ''temperature depth profile'')) of
     DepthProfileData d \<Rightarrow>
       length (dp_depths d) = 13 \<and> length (dp_temperatures d) = 13
       \<and> hd (dp_depths d) = 0 \<and> last (dp_depths d) = 2000
       \<and> hd (dp_temperatures d) = 22.1 \<and> last (dp_temperatures d) = 4.0
       \<and> sorted_wrt (<) (dp_depths d)
       \<and> sorted_wrt (>) (dp_temperatures d)
       \<and> sorted_wrt (\<ge>) (dp_temperatures d)
   | _ \<Rightarrow> False"
  by (simp add: generateMockResponse_respond resolve_depth depthProfileResponse_def
      generateDepthProfileData_def)

text \<open>
  Claim C6, as stated, fails: the trend series is not non-decreasing. The value for 2012
  (18.0, index 3) is below the value for 2011 (18.1, index 2).
\<close>

theorem trend_not_monotone:
  "data trendResponse = TrendData generateTrendData
   \<and> tr_temperatures generateTrendData ! 3 < tr_temperatures generateTrendData ! 2
   \<and> \<not> sorted (tr_temperatures generateTrendData)"
  by (simp add: trendResponse_def generateTrendData_def)

text \<open>
  Claim C6, amended. The trend payload is a fixed series of 16 annual mean temperatures for
  the years 2009 to 2024 that rises overall: it starts at its least value 17.8 and ends at
  its greatest value 19.6, and no value is below the value of two years before.
  \<open>trend_slope\<close> is 0.015 and \<open>r_squared\<close> is 0.87. The payload depends on neither
  the random source nor the clock.
\<close>

theorem trend_payload:
  "data (respond env TemperatureTrend) = TrendData generateTrendData
   \<and> years generateTrendData = map real [2009..<2025]
   \<and> length (tr_temperatures generateTrendData) = 16
   \<and> hd (tr_temperatures generateTrendData) = 17.8
   \<and> Min (set (tr_temperatures generateTrendData)) = 17.8
   \<and> last (tr_temperatures generateTrendData) = 19.6
   \<and> Max (set (tr_temperatures generateTrendData)) = 19.6
   \<and> list_all2 (\<lambda>a b. a \<le> b) (take 14 (tr_temperatures generateTrendData))
        (drop 2 (tr_temperatures generateTrendData))
   \<and> trend_slope generateTrendData = 0.015
   \<and> r_squared generateTrendData = 0.87"
  by (simp add: trendResponse_def generateTrendData_def upt_rec)

subsection \<open>Charts and data of one response\<close>




subsection \<open>Case of the letters\<close>

lemma lowerUnit_capital:
  "0x41 \<le> a \<Longrightarrow> a \<le> 0x5A \<Longrightarrow> lowerUnit (a + 0x20) = lowerUnit a"
  unfolding lowerUnit_def by (auto; unat_arith?)

lemma lowerUnit_asciiCaseEq: "asciiCaseEq a b \<Longrightarrow> lowerUnit a = lowerUnit b"
  unfolding asciiCaseEq_def using lowerUnit_capital by auto

lemma toLowerCase_asciiCaseEq:
  "list_all2 asciiCaseEq s t \<Longrightarrow> toLowerCase s = toLowerCase t"
  by (induction rule: list_all2_induct) (simp_all add: toLowerCase_def lowerUnit_asciiCaseEq)

lemma caseEq_example:
  "list_all2 asciiCaseEq (str ''TEMPERATURE trend'') (str ''temperature TREND'')"
  by (simp add: str_def asciiCaseEq_def)

text \<open>
  Claim C8, as stated, fails: changing the case of a character can change the intent.
  \<open>toUpperCase\<close> turns the word \<open>pacific\<close> written with dotless i into \<open>PACIFIC\<close>; the
  first resolves to the default intent, the second to the Pacific intent.
\<close>

theorem case_change_changes_intent:
  "toUpperCase pacific_dotless = str ''PACIFIC''
   \<and> resolve (toLowerCase pacific_dotless) = Default
   \<and> resolve (toLowerCase (toUpperCase pacific_dotless)) = RegionPacific"
  by (simp add: toUpperCase_def upperUnit_def pacific_dotless_def resolve_def toLowerCase_def
      lowerUnit_def str_def)

text \<open>
  Claim C8, amended. The intent is a function of the message alone: for every random source
  and clock the response is the one of the branch \<open>resolve (toLowerCase s)\<close>. It does not
  depend on the case of the letters A to Z: two messages that differ only in the case of
  such letters get the same intent and the same response, as \<open>TEMPERATURE trend\<close> and
  \<open>temperature TREND\<close> do.
\<close>

theorem intent_ignores_ascii_case:
  assumes "list_all2 asciiCaseEq s t"
  shows "resolve (toLowerCase s) = resolve (toLowerCase t)
         \<and> generateMockResponse env s = respond env (resolve (toLowerCase s))
         \<and> generateMockResponse env s = generateMockResponse env t
         \<and> resolve (toLowerCase (str ''TEMPERATURE trend'')) =
             resolve (toLowerCase (str ''temperature TREND''))"
  using toLowerCase_asciiCaseEq [OF assms]
  by (simp add: generateMockResponse_respond resolve_trend)

theorem intent_ignores_ascii_case_witness:
  "list_all2 asciiCaseEq (str ''TEMPERATURE trend'') (str ''temperature TREND'')
   \<and> resolve (toLowerCase (str ''TEMPERATURE trend'')) =
       resolve (toLowerCase (str ''temperature TREND''))"
  using intent_ignores_ascii_case [OF caseEq_example] caseEq_example by simp

subsection \<open>The chat history request\<close>

text \<open>
  Claim C9. For every user id, when the GET request to \<open>/api/chat/history\<close> is rejected,
  whatever the error, \<open>getChatHistory\<close> returns the object \<open>{ messages: [] }\<close> and throws
  nothing.
\<close>

theorem history_failure_gives_empty_list:
  assumes "axios_get \<lparr> url = API_BASE_URL v @ str ''/api/chat/history'',
                       params = [(str ''user_id'', orElse userId (str ''demo''))] \<rparr> = Inl e"
  shows "getChatHistory v axios_get userId = Inr (JObject [(str ''messages'', JArray [])])"
  using assms by (simp add: getChatHistory_def)

theorem history_failure_gives_empty_list_witness:
  "getChatHistory None (\<lambda>r. Inl ''timeout'') None =
     Inr (JObject [(str ''messages'', JArray [])])"
  using history_failure_gives_empty_list [of "\<lambda>r. Inl ''timeout''" None None "''timeout''"]
  by simp

end
